theory Spec2Isabelle
  imports Main "HOL-Library.Word" "HOL-Library.Signed_Division"
begin

section \<open>Strings and formatting used by the client\<close>

text \<open>
  Go strings and byte slices are sequences of bytes: \<^typ>\<open>string\<close>.
  \<open>strings.HasPrefix(s, prefix)\<close> is
  \<open>len(s) >= len(prefix) && s[:len(prefix)] == prefix\<close>.
\<close>

definition HasPrefix :: "string \<Rightarrow> string \<Rightarrow> bool" where
  "HasPrefix s pre = (length pre \<le> length s \<and> take (length pre) s = pre)"

text \<open>\<open>strings.Contains(s, substr)\<close>: \<open>substr\<close> occurs at some offset of \<open>s\<close>.\<close>

fun Contains :: "string \<Rightarrow> string \<Rightarrow> bool" where
  "Contains [] substr = (substr = [])"
| "Contains (c # s) substr = (HasPrefix (c # s) substr \<or> Contains s substr)"

text \<open>The verb \<open>%d\<close> of package fmt: a signed decimal numeral.\<close>

definition digit_char :: "nat \<Rightarrow> char" where
  "digit_char d = ''0123456789'' ! d"

fun decimal :: "nat \<Rightarrow> string" where
  "decimal n = (if n < 10 then [digit_char n] else decimal (n div 10) @ [digit_char (n mod 10)])"

declare decimal.simps [simp del]

definition itoa :: "int \<Rightarrow> string" where
  "itoa i = (if i < 0 then CHR ''-'' # decimal (nat (- i)) else decimal (nat i))"

text \<open>
  \<open>strings.ToUpper\<close> and \<open>strings.TrimSpace\<close> on ASCII text, which is what the verbs
  of the API and the documents written by the JSON encoder are (an encoded document
  begins and ends with an ASCII byte).
\<close>

definition upper_char :: "char \<Rightarrow> char" where
  "upper_char c = (if (97::nat) \<le> of_char c \<and> (of_char c :: nat) \<le> 122
                   then char_of ((of_char c :: nat) - 32) else c)"

definition ToUpper :: "string \<Rightarrow> string" where
  "ToUpper s = map upper_char s"

definition is_space :: "char \<Rightarrow> bool" where
  "is_space c = ((of_char c :: nat) \<in> {9, 10, 11, 12, 13, 32})"

definition TrimSpace :: "string \<Rightarrow> string" where
  "TrimSpace s = rev (dropWhile is_space (rev (dropWhile is_space s)))"

section \<open>Errors\<close>

text \<open>
  Every error value the code builds is a constructor; \<open>Error\<close> is its \<open>Error()\<close> text.
  In the words of the specification: \<open>InvalidUrl\<close> and \<open>EmptyCredentials\<close> are the
  Construction Errors, \<open>TransportError\<close> the Transport Error of a status outside 2xx,
  \<open>InvalidContent\<close> and \<open>UnmarshalFailed\<close> the Malformed Response Errors,
  \<open>ServiceError\<close> the Service Error and \<open>AIDbTypeError\<close> the Capability Mismatch Error.
  \<open>LibError\<close> is an error made outside this code (reading a body, the network, the
  JSON package), known by its text.
\<close>

datatype error =
    LibError string
  | InvalidUrl string
    \<comment> \<open>\<open>errors.Errorf("invalid url param with: %s", url)\<close>\<close>
  | EmptyCredentials
    \<comment> \<open>\<open>errors.New("username or key is empty")\<close>\<close>
  | EncodeError error string
    \<comment> \<open>\<open>fmt.Errorf("%w, %#v", err, req)\<close>: the cause and the request printed by \<open>%#v\<close>\<close>
  | TransportError int string
    \<comment> \<open>\<open>errors.Errorf("response code is %d, %s", res.StatusCode, string(responseBytes))\<close>\<close>
  | InvalidContent string
    \<comment> \<open>\<open>errors.Errorf(`invalid response content: %s`, responseBytes)\<close>\<close>
  | UnmarshalFailed error string
    \<comment> \<open>\<open>errors.Wrapf(err, `json.Unmarshal failed with content:%s`, responseBytes)\<close>\<close>
  | ServiceError "32 word" string
    \<comment> \<open>\<open>errors.Errorf("code: %d, message: %s", commenRes.Code, commenRes.Msg)\<close>\<close>
  | AIDbTypeError
    \<comment> \<open>\<open>entity.AIDbTypeError\<close>, a value of package entity\<close>

fun Error :: "error \<Rightarrow> string" where
  "Error (LibError m) = m"
| "Error (InvalidUrl u) = ''invalid url param with: '' @ u"
| "Error EmptyCredentials = ''username or key is empty''"
| "Error (EncodeError e v) = Error e @ '', '' @ v"
| "Error (TransportError st body) = ''response code is '' @ itoa st @ '', '' @ body"
| "Error (InvalidContent body) = ''invalid response content: '' @ body"
| "Error (UnmarshalFailed e body) =
     ''json.Unmarshal failed with content:'' @ body @ '': '' @ Error e"
| "Error (ServiceError code m) = ''code: '' @ itoa (sint code) @ '', message: '' @ m"
| "Error AIDbTypeError = ''AIDbTypeError''"

section \<open>Transport configuration\<close>

text \<open>
  \<open>time.Duration\<close> is an \<open>int64\<close> of nanoseconds and \<open>int\<close> is 64 bits wide. The
  transport is an interface value: \<open>None\<close> is \<open>nil\<close>.
\<close>

type_synonym Duration = "64 word"

definition Second :: Duration where
  "Second = 1000000000"

definition Minute :: Duration where
  "Minute = 60 * Second"

record 't ClientOption =
  Timeout :: Duration
  MaxIdldConnPerHost :: "64 word"
  IdleConnTimeout :: Duration
  ReadConsistency :: string
  Transport :: "'t option"

text \<open>
  \<open>api.EventualConsistency\<close> is a string constant of package api, which is not among
  the sources: it is the parameter \<open>ec\<close> of everything that reads \<open>defaultOption\<close>.
\<close>

definition defaultOption :: "string \<Rightarrow> 't ClientOption" where
  "defaultOption ec =
     \<lparr>Timeout = Second * 5, MaxIdldConnPerHost = 2, IdleConnTimeout = Minute,
      ReadConsistency = ec, Transport = None\<rparr>"

definition optionMerge :: "string \<Rightarrow> 't ClientOption \<Rightarrow> 't ClientOption" where
  "optionMerge ec option0 =
     (let option1 = (if Timeout option0 = 0
                     then option0\<lparr>Timeout := Timeout (defaultOption ec :: 't ClientOption)\<rparr>
                     else option0);
          option2 = (if IdleConnTimeout option1 = 0
                     then option1\<lparr>IdleConnTimeout := IdleConnTimeout (defaultOption ec :: 't ClientOption)\<rparr>
                     else option1);
          option3 = (if MaxIdldConnPerHost option2 = 0
                     then option2\<lparr>MaxIdldConnPerHost := MaxIdldConnPerHost (defaultOption ec :: 't ClientOption)\<rparr>
                     else option2);
          option4 = (if ReadConsistency option3 = []
                     then option3\<lparr>ReadConsistency := ReadConsistency (defaultOption ec :: 't ClientOption)\<rparr>
                     else option3)
      in option4)"

section \<open>The client\<close>

text \<open>
  \<open>http.Client\<close> with the two fields the constructor sets. Its transport is the
  caller's, or an \<open>http.Transport\<close> that skips certificate verification.
\<close>

datatype 't RoundTripper =
    Custom 't
  | HttpTransport (InsecureSkipVerify: bool) (MaxIdleConnsPerHost: "64 word")
      (TransportIdleConnTimeout: Duration)

record 't http_Client =
  ClientTransport :: "'t RoundTripper"
  ClientTimeout :: Duration

text \<open>
  The three embedded interfaces of \<open>Client\<close> are implementers that hold the client
  itself and nothing else; they are the handles of the later sections.
\<close>

record 't Client =
  cli :: "'t http_Client"
  url :: string
  username :: string
  key :: string
  option :: "'t ClientOption"
  debug :: bool

definition newClient ::
  "string \<Rightarrow> string \<Rightarrow> string \<Rightarrow> string \<Rightarrow> 't ClientOption \<Rightarrow> error + 't Client" where
  "newClient ec u name k opt =
     (if \<not> HasPrefix u ''http'' then Inl (InvalidUrl u)
      else if name = [] \<or> k = [] then Inl EmptyCredentials
      else
        let merged = optionMerge ec opt;
            tr = (case Transport opt of
                    Some t \<Rightarrow> Custom t
                  | None \<Rightarrow> HttpTransport True (MaxIdldConnPerHost merged) (IdleConnTimeout merged))
        in Inr \<lparr>cli = \<lparr>ClientTransport = tr, ClientTimeout = Timeout merged\<rparr>,
                url = u, username = name, key = k, option = merged, debug = False\<rparr>)"

text \<open>\<open>option\<close> is a pointer: \<open>None\<close> is \<open>nil\<close>, replaced by \<open>&defaultOption\<close>.\<close>

definition NewClient ::
  "string \<Rightarrow> string \<Rightarrow> string \<Rightarrow> string \<Rightarrow> 't ClientOption option \<Rightarrow> error + 't Client" where
  "NewClient ec u name k opt =
     newClient ec u name k
       (optionMerge ec (case opt of None \<Rightarrow> defaultOption ec | Some p \<Rightarrow> p))"

definition Options :: "'t Client \<Rightarrow> 't ClientOption" where
  "Options c = option c"

definition WithTimeout :: "'t Client \<Rightarrow> Duration \<Rightarrow> 't Client" where
  "WithTimeout c d = c\<lparr>option := (option c)\<lparr>Timeout := d\<rparr>, cli := (cli c)\<lparr>ClientTimeout := d\<rparr>\<rparr>"

definition Debug :: "'t Client \<Rightarrow> bool \<Rightarrow> 't Client" where
  "Debug c v = c\<lparr>debug := v\<rparr>"

section \<open>The dispatcher\<close>

text \<open>
  What \<open>Request\<close> and \<open>handleResponse\<close> call outside their own file is a parameter,
  one field for each function: packages api (\<open>Method\<close>, \<open>Path\<close>), encoding/json, fmt,
  net/http, and the constant \<open>SDKVersion\<close>. \<open>'req\<close> is the type of the request value,
  \<open>'out\<close> of what the result argument points to, \<open>'w\<close> of the state of the network and
  the service behind it.

  \<open>json.Unmarshal\<close> writes through its pointer argument and returns an error or
  \<open>nil\<close>: it is a function from the document and the target's old value to the error
  and the target's new value (a failed decode can leave the target partly written).
  There is one such function for each target type the code decodes into.
\<close>

record CommmonResponse =
  Code :: "32 word"
  Msg :: string

record http_Request =
  Method :: string
  URL :: string
  RequestBody :: string
  Header :: "(string \<times> string) list"

text \<open>
  An \<open>http.Response\<close>: its status, and what \<open>io.ReadAll(res.Body)\<close> gives, the bytes
  or a read error.
\<close>

record http_Response =
  StatusCode :: int
  Body :: "error + string"

record ('req, 'out, 'w, 't) deps =
  api_Method :: "'req \<Rightarrow> string"
  api_Path :: "'req \<Rightarrow> string"
  SDKVersion :: string
  json_Encode :: "'req \<Rightarrow> error + string"
  fmt_GoSyntax :: "'req \<Rightarrow> string"
  http_NewRequest :: "string \<Rightarrow> string \<Rightarrow> string \<Rightarrow> error + http_Request"
  http_Do :: "'t http_Client \<Rightarrow> http_Request \<Rightarrow> 'w \<Rightarrow> (error + http_Response) \<times> 'w"
  json_Valid :: "string \<Rightarrow> bool"
  json_Unmarshal_CommmonResponse ::
    "string \<Rightarrow> CommmonResponse \<Rightarrow> error option \<times> CommmonResponse"
  json_Unmarshal :: "string \<Rightarrow> 'out \<Rightarrow> error option \<times> 'out"

text \<open>
  \<open>handleResponse\<close> returns the error (\<open>None\<close> is \<open>nil\<close>), the value of the result
  argument afterwards, and the log: \<open>log.Printf\<close> appends one line. The status is a Go
  \<open>int\<close> and \<open>/\<close> truncates towards zero: \<open>sdiv\<close>. The context argument is not read,
  and closing the body has no effect on what is returned.
\<close>

definition handleResponse ::
  "('req, 'out, 'w, 't) deps \<Rightarrow> 't Client \<Rightarrow> http_Response \<Rightarrow> 'out \<Rightarrow> string list
     \<Rightarrow> error option \<times> 'out \<times> string list" where
  "handleResponse d c res out lg =
     (case Body res of
        Inl err \<Rightarrow> (Some err, out, lg)
      | Inr responseBytes \<Rightarrow>
          let lg' = (if debug c
                     then lg @ [''[DEBUG] RESPONSE: '' @ itoa (StatusCode res) @ '' '' @ responseBytes]
                     else lg)
          in if StatusCode res sdiv 100 \<noteq> 2
             then (Some (TransportError (StatusCode res) responseBytes), out, lg')
             else if \<not> json_Valid d responseBytes
             then (Some (InvalidContent responseBytes), out, lg')
             else
               (case json_Unmarshal_CommmonResponse d responseBytes \<lparr>Code = 0, Msg = []\<rparr> of
                  (Some err, commenRes) \<Rightarrow> (Some (UnmarshalFailed err responseBytes), out, lg')
                | (None, commenRes) \<Rightarrow>
                    if Code commenRes \<noteq> 0
                    then (Some (ServiceError (Code commenRes) (Msg commenRes)), out, lg')
                    else
                      (case json_Unmarshal d responseBytes out of
                         (Some err, out') \<Rightarrow> (Some (UnmarshalFailed err responseBytes), out', lg')
                       | (None, out') \<Rightarrow> (None, out', lg'))))"

text \<open>
  \<open>Request\<close> returns the error, the result argument afterwards, the state of the
  network and the log. \<open>encoder.Encode\<close> gives the request body (the document and a
  newline) or an error; \<open>Header.Add\<close> appends a header.
\<close>

definition Request ::
  "('req, 'out, 'w, 't) deps \<Rightarrow> 't Client \<Rightarrow> 'req \<Rightarrow> 'out \<Rightarrow> 'w \<Rightarrow> string list
     \<Rightarrow> error option \<times> 'out \<times> 'w \<times> string list" where
  "Request d c req out w lg =
     (let method = api_Method d req;
          path = api_Path d req
      in case json_Encode d req of
           Inl err \<Rightarrow> (Some (EncodeError err (fmt_GoSyntax d req)), out, w, lg)
         | Inr reqBody \<Rightarrow>
             (case http_NewRequest d (ToUpper method) (url c @ path) reqBody of
                Inl err \<Rightarrow> (Some err, out, w, lg)
              | Inr request \<Rightarrow>
                  let lg' = (if debug c
                             then lg @ [''[DEBUG] REQUEST, Method: '' @ method @ '', Path: '' @ path
                                          @ '', Body: '' @ TrimSpace reqBody]
                             else lg);
                      auth = ''Bearer account='' @ username c @ ''&api_key='' @ key c;
                      request' = request\<lparr>Header := Header request @
                                   [(''Authorization'', auth),
                                    (''Content-Type'', ''application/json''),
                                    (''Sdk-Version'', SDKVersion d)]\<rparr>
                  in case http_Do d (cli c) request' w of
                       (Inl err, w') \<Rightarrow> (Some err, out, w', lg')
                     | (Inr response, w') \<Rightarrow>
                         (case handleResponse d c response out lg' of
                            (err, out', lg'') \<Rightarrow> (err, out', w', lg''))))"

section \<open>Handles\<close>

text \<open>
  A handle embeds the interface \<open>SdkClient\<close> and calls its method \<open>Request\<close>, which is
  any implementation: a function from the request, the result argument and the state
  of the network to the error, the result argument afterwards and the new state.
\<close>

type_synonym ('req, 'res, 'w) SdkClient =
  "'req \<Rightarrow> 'res \<Rightarrow> 'w \<Rightarrow> (error option \<times> 'res) \<times> 'w"

text \<open>The client of the previous section as an \<open>SdkClient\<close>; its state includes the log.\<close>

definition Client_SdkClient ::
  "('req, 'res, 'w, 't) deps \<Rightarrow> 't Client \<Rightarrow> ('req, 'res, 'w \<times> string list) SdkClient" where
  "Client_SdkClient d c req res s =
     (case Request d c req res (fst s) (snd s) of
        (err, res', w', lg') \<Rightarrow> ((err, res'), (w', lg')))"

subsection \<open>Databases\<close>

record database_CreateReq =
  CreateReq_Database :: string

record database_DropReq =
  DropReq_Database :: string

text \<open>
  \<open>model.Database\<close>, made by \<open>Database(name)\<close> without a request: the name, and a
  collection implementer holding the same client and name.
\<close>

record model_Database =
  DatabaseName :: string
  collImpl_databaseName :: string

definition Database :: "string \<Rightarrow> model_Database" where
  "Database name = \<lparr>DatabaseName = name, collImpl_databaseName = name\<rparr>"

text \<open>
  The response types \<open>database.CreateRes\<close> and \<open>database.DropRes\<close> are declared outside
  the sources and no field of them is read: they are a type parameter, and
  \<open>new_res\<close> is the value \<open>new\<close> allocates. The functions return what the Go
  functions return, \<open>(*model.Database, error)\<close> and \<open>error\<close>, and the new state.
\<close>

definition CreateDatabase ::
  "(database_CreateReq, 'res, 'w) SdkClient \<Rightarrow> 'res \<Rightarrow> string \<Rightarrow> 'w
     \<Rightarrow> (model_Database option \<times> error option) \<times> 'w" where
  "CreateDatabase sdk new_res name w =
     (case sdk \<lparr>CreateReq_Database = name\<rparr> new_res w of
        ((Some err, res), w') \<Rightarrow> ((None, Some err), w')
      | ((None, res), w') \<Rightarrow> ((Some (Database name), None), w'))"

definition DropDatabase ::
  "(database_DropReq, 'res, 'w) SdkClient \<Rightarrow> 'res \<Rightarrow> string \<Rightarrow> 'w \<Rightarrow> error option \<times> 'w" where
  "DropDatabase sdk new_res name w =
     (case sdk \<lparr>DropReq_Database = name\<rparr> new_res w of
        ((Some err, res), w') \<Rightarrow>
          if Contains (Error err) ''not exist'' then (None, w') else (Some err, w')
      | ((None, res), w') \<Rightarrow> (None, w'))"

subsection \<open>Aliases\<close>

record alias_SetReq =
  SetReq_Database :: string
  SetReq_Collection :: string
  SetReq_Alias :: string

record alias_DeleteReq =
  DeleteReq_Database :: string
  DeleteReq_Alias :: string

text \<open>
  Of the response and result types only the field \<open>AffectedCount\<close> is used, and only
  copied; its Go type is declared outside the sources.
\<close>

record alias_SetRes =
  SetRes_AffectedCount :: int

record alias_DeleteRes =
  DeleteRes_AffectedCount :: int

record SetAliasResult =
  SetAliasResult_AffectedCount :: int

record DeleteAliasResult =
  DeleteAliasResult_AffectedCount :: int

text \<open>
  The alias functions pass \<open>&res\<close>, the address of their pointer \<open>res\<close>, so \<open>Request\<close>
  can also set that pointer to \<open>nil\<close>: the result argument is an \<open>option\<close>. Reading
  \<open>res.AffectedCount\<close> through a \<open>nil\<close> pointer panics.
\<close>

datatype 'a outcome = Panic | Return 'a

text \<open>
  The implementer of \<open>database.go\<close> holds \<open>databaseName\<close>. Its functions return
  \<open>(*entity.SetAliasResult, error)\<close>; the option argument is not read.
\<close>

definition SetAlias_databaseName ::
  "(alias_SetReq, alias_SetRes option, 'w) SdkClient \<Rightarrow> string \<Rightarrow> string \<Rightarrow> string \<Rightarrow> 'w
     \<Rightarrow> (SetAliasResult option \<times> error option) outcome \<times> 'w" where
  "SetAlias_databaseName sdk databaseName collectionName aliasName w =
     (let req = \<lparr>SetReq_Database = databaseName, SetReq_Collection = collectionName,
                 SetReq_Alias = aliasName\<rparr>;
          res = Some \<lparr>SetRes_AffectedCount = 0\<rparr>;
          result = \<lparr>SetAliasResult_AffectedCount = 0\<rparr>
      in case sdk req res w of
           ((Some err, res'), w') \<Rightarrow> (Return (Some result, Some err), w')
         | ((None, None), w') \<Rightarrow> (Panic, w')
         | ((None, Some r), w') \<Rightarrow>
             (Return (Some (result\<lparr>SetAliasResult_AffectedCount := SetRes_AffectedCount r\<rparr>), None), w'))"

definition DeleteAlias_databaseName ::
  "(alias_DeleteReq, alias_DeleteRes option, 'w) SdkClient \<Rightarrow> string \<Rightarrow> string \<Rightarrow> 'w
     \<Rightarrow> (DeleteAliasResult option \<times> error option) outcome \<times> 'w" where
  "DeleteAlias_databaseName sdk databaseName aliasName w =
     (let req = \<lparr>DeleteReq_Database = databaseName, DeleteReq_Alias = aliasName\<rparr>;
          res = Some \<lparr>DeleteRes_AffectedCount = 0\<rparr>;
          result = \<lparr>DeleteAliasResult_AffectedCount = 0\<rparr>
      in case sdk req res w of
           ((Some err, res'), w') \<Rightarrow> (Return (Some result, Some err), w')
         | ((None, None), w') \<Rightarrow> (Panic, w')
         | ((None, Some r), w') \<Rightarrow>
             (Return (Some (result\<lparr>DeleteAliasResult_AffectedCount := DeleteRes_AffectedCount r\<rparr>), None), w'))"

text \<open>
  The implementer of the other alias file holds \<open>database\<close>, an \<open>entity.Database\<close>,
  and asks \<open>IsAIDatabase()\<close> first.
\<close>

datatype databaseKind = Ordinary | AI

record entity_Database =
  entity_DatabaseName :: string
  kind :: databaseKind

text \<open>
  Modelled from the spec: \<open>entity.Database\<close> and its method \<open>IsAIDatabase\<close> are declared
  outside the sources. A database handle holds its name and its kind, ordinary or AI,
  fixed when the handle is made; \<open>IsAIDatabase\<close> tells whether the kind is AI.
\<close>

definition IsAIDatabase :: "entity_Database \<Rightarrow> bool" where
  "IsAIDatabase db = (kind db = AI)"

definition SetAlias ::
  "(alias_SetReq, alias_SetRes option, 'w) SdkClient \<Rightarrow> entity_Database \<Rightarrow> string \<Rightarrow> string \<Rightarrow> 'w
     \<Rightarrow> (SetAliasResult option \<times> error option) outcome \<times> 'w" where
  "SetAlias sdk database collectionName aliasName w =
     (if IsAIDatabase database then (Return (None, Some AIDbTypeError), w)
      else
        let req = \<lparr>SetReq_Database = entity_DatabaseName database,
                   SetReq_Collection = collectionName, SetReq_Alias = aliasName\<rparr>;
            res = Some \<lparr>SetRes_AffectedCount = 0\<rparr>;
            result = \<lparr>SetAliasResult_AffectedCount = 0\<rparr>
        in case sdk req res w of
             ((Some err, res'), w') \<Rightarrow> (Return (Some result, Some err), w')
           | ((None, None), w') \<Rightarrow> (Panic, w')
           | ((None, Some r), w') \<Rightarrow>
               (Return (Some (result\<lparr>SetAliasResult_AffectedCount := SetRes_AffectedCount r\<rparr>), None), w'))"

definition DeleteAlias ::
  "(alias_DeleteReq, alias_DeleteRes option, 'w) SdkClient \<Rightarrow> entity_Database \<Rightarrow> string \<Rightarrow> 'w
     \<Rightarrow> (DeleteAliasResult option \<times> error option) outcome \<times> 'w" where
  "DeleteAlias sdk database aliasName w =
     (if IsAIDatabase database then (Return (None, Some AIDbTypeError), w)
      else
        let req = \<lparr>DeleteReq_Database = entity_DatabaseName database, DeleteReq_Alias = aliasName\<rparr>;
            res = Some \<lparr>DeleteRes_AffectedCount = 0\<rparr>;
            result = \<lparr>DeleteAliasResult_AffectedCount = 0\<rparr>
        in case sdk req res w of
             ((Some err, res'), w') \<Rightarrow> (Return (Some result, Some err), w')
           | ((None, None), w') \<Rightarrow> (Panic, w')
           | ((None, Some r), w') \<Rightarrow>
               (Return (Some (result\<lparr>DeleteAliasResult_AffectedCount := DeleteRes_AffectedCount r\<rparr>), None), w'))"

section \<open>A test transport and a test client\<close>

text \<open>
  Stand-ins on which the examples below run, as a Go test would supply them. The
  transport answers from a list of prepared replies, so what is left of the list tells
  how many calls were made. The decoder is given by what \<open>encoding/json\<close> returns on
  four documents; every other document counts as invalid. The result type has the one
  field \<open>affectedCount\<close>.
\<close>

definition doc_not_exist :: string where
  \<open>doc_not_exist = ''{"code":1,"msg":"collection not exist"}''\<close>

definition doc_dropped :: string where
  \<open>doc_dropped = ''{"code":0,"msg":"Operation success","affectedCount":1}''\<close>

definition doc_array :: string where
  \<open>doc_array = ''[]''\<close>

definition doc_bad_count :: string where
  \<open>doc_bad_count = ''{"code":0,"affectedCount":"one"}''\<close>

record test_Res =
  AffectedCount :: int

definition test_Valid :: "string \<Rightarrow> bool" where
  "test_Valid b = (b = doc_not_exist \<or> b = doc_dropped \<or> b = doc_array \<or> b = doc_bad_count)"

definition test_Unmarshal_CommmonResponse ::
  "string \<Rightarrow> CommmonResponse \<Rightarrow> error option \<times> CommmonResponse" where
  "test_Unmarshal_CommmonResponse b v =
     (if b = doc_not_exist then (None, v\<lparr>Code := 1, Msg := ''collection not exist''\<rparr>)
      else if b = doc_dropped then (None, v\<lparr>Code := 0, Msg := ''Operation success''\<rparr>)
      else if b = doc_bad_count then (None, v\<lparr>Code := 0\<rparr>)
      else (Some (LibError ''json: cannot unmarshal array into Go value of type tcvectordb.CommmonResponse''), v))"

definition test_Unmarshal :: "string \<Rightarrow> test_Res \<Rightarrow> error option \<times> test_Res" where
  "test_Unmarshal b v =
     (if b = doc_not_exist then (None, v)
      else if b = doc_dropped then (None, v\<lparr>AffectedCount := 1\<rparr>)
      else if b = doc_bad_count
      then (Some (LibError ''json: cannot unmarshal string into Go struct field Res.affectedCount of type int''), v)
      else (Some (LibError ''json: cannot unmarshal array into Go value''), v))"

definition test_Do ::
  "unit http_Client \<Rightarrow> http_Request \<Rightarrow> (error + http_Response) list
     \<Rightarrow> (error + http_Response) \<times> (error + http_Response) list" where
  "test_Do cl rq replies =
     (case replies of
        [] \<Rightarrow> (Inl (LibError ''connection refused''), [])
      | r # rs \<Rightarrow> (r, rs))"

definition test_deps ::
  "(database_DropReq, test_Res, (error + http_Response) list, unit) deps" where
  \<open>test_deps =
     \<lparr>api_Method = (\<lambda>r. ''Post''),
      api_Path = (\<lambda>r. ''/database/drop''),
      SDKVersion = ''v1.0.0'',
      json_Encode = (\<lambda>r. Inr (''{"database":"'' @ DropReq_Database r @ ''"}'' @ [CHR 0x0A])),
      fmt_GoSyntax = (\<lambda>r. ''database.DropReq{Database:"'' @ DropReq_Database r @ ''"}''),
      http_NewRequest = (\<lambda>m u b. Inr \<lparr>Method = m, URL = u, RequestBody = b, Header = []\<rparr>),
      http_Do = test_Do,
      json_Valid = test_Valid,
      json_Unmarshal_CommmonResponse = test_Unmarshal_CommmonResponse,
      json_Unmarshal = test_Unmarshal\<rparr>\<close>

definition test_Client :: "unit Client" where
  "test_Client =
     \<lparr>cli = \<lparr>ClientTransport = HttpTransport True 2 Minute, ClientTimeout = Second * 5\<rparr>,
      url = ''http://host:8100'', username = ''root'', key = ''k'',
      option = defaultOption ''eventualConsistency'', debug = False\<rparr>"

definition reply :: "int \<Rightarrow> string \<Rightarrow> error + http_Response" where
  "reply st b = Inr \<lparr>StatusCode = st, Body = Inr b\<rparr>"

text \<open>An \<open>SdkClient\<close> that answers from a list of prepared results.\<close>

definition test_SdkClient :: "('req, 'res, (error option \<times> 'res) list) SdkClient" where
  "test_SdkClient req res replies =
     (case replies of
        [] \<Rightarrow> ((Some (LibError ''connection refused''), res), [])
      | r # rs \<Rightarrow> (r, rs))"

text \<open>
  The same stand-ins for a set-alias request, whose result argument is the pointer
  \<open>res\<close> itself. The decoder is given on the document \<open>null\<close>, which leaves a struct
  as it is and sets a pointer to \<open>nil\<close>; every other document counts as invalid.
\<close>

definition test_alias_deps ::
  "(alias_SetReq, alias_SetRes option, (error + http_Response) list, unit) deps" where
  \<open>test_alias_deps =
     \<lparr>api_Method = (\<lambda>r. ''Post''),
      api_Path = (\<lambda>r. ''/alias/set''),
      SDKVersion = ''v1.0.0'',
      json_Encode = (\<lambda>r. Inr (''{"database":"'' @ SetReq_Database r @ ''","collection":"''
                                 @ SetReq_Collection r @ ''","alias":"'' @ SetReq_Alias r @ ''"}''
                                 @ [CHR 0x0A])),
      fmt_GoSyntax = (\<lambda>r. ''&alias.SetReq{Database:"'' @ SetReq_Database r @ ''"}''),
      http_NewRequest = (\<lambda>m u b. Inr \<lparr>Method = m, URL = u, RequestBody = b, Header = []\<rparr>),
      http_Do = test_Do,
      json_Valid = (\<lambda>b. b = ''null''),
      json_Unmarshal_CommmonResponse = (\<lambda>b v. (None, v)),
      json_Unmarshal = (\<lambda>b v. (None, None))\<rparr>\<close>

section \<open>Facts about the string functions\<close>

lemma HasPrefix_iff: "HasPrefix s pre = (\<exists>rest. s = pre @ rest)"
proof
  assume "HasPrefix s pre"
  then have "s = pre @ drop (length pre) s"
    by (metis HasPrefix_def append_take_drop_id)
  then show "\<exists>rest. s = pre @ rest" ..
next
  assume "\<exists>rest. s = pre @ rest"
  then show "HasPrefix s pre" by (auto simp: HasPrefix_def)
qed

lemma Contains_iff: "Contains s sub = (\<exists>a b. s = a @ sub @ b)"
proof (induction s)
  case Nil
  then show ?case by auto
next
  case (Cons c s)
  show ?case
  proof
    assume "Contains (c # s) sub"
    then consider "HasPrefix (c # s) sub" | "Contains s sub" by auto
    then show "\<exists>a b. c # s = a @ sub @ b"
    proof cases
      case 1
      then obtain rest where "c # s = sub @ rest" by (auto simp: HasPrefix_iff)
      then have "c # s = [] @ sub @ rest" by simp
      then show ?thesis by blast
    next
      case 2
      then obtain a b where "s = a @ sub @ b" using Cons.IH by auto
      then have "c # s = (c # a) @ sub @ b" by simp
      then show ?thesis by blast
    qed
  next
    assume "\<exists>a b. c # s = a @ sub @ b"
    then obtain a b where ab: "c # s = a @ sub @ b" by auto
    show "Contains (c # s) sub"
    proof (cases a)
      case Nil
      with ab have "HasPrefix (c # s) sub" by (auto simp: HasPrefix_iff)
      then show ?thesis by simp
    next
      case (Cons x a')
      with ab have "s = a' @ sub @ b" by simp
      then have "Contains s sub" using Cons.IH by auto
      then show ?thesis by simp
    qed
  qed
qed

lemma Contains_append: "Contains m sub \<Longrightarrow> Contains (pre @ m @ post) sub"
proof -
  assume "Contains m sub"
  then obtain a b where "m = a @ sub @ b" by (auto simp: Contains_iff)
  then have "pre @ m @ post = (pre @ a) @ sub @ (b @ post)" by simp
  then show ?thesis unfolding Contains_iff by blast
qed

lemma Error_ServiceError_Contains:
  "Contains m sub \<Longrightarrow> Contains (Error (ServiceError code m)) sub"
  using Contains_append [of m sub "''code: '' @ itoa (sint code) @ '', message: ''" "[]"]
  by simp

lemma itoa_1: "itoa 1 = ''1''"
  by (simp add: itoa_def decimal.simps digit_char_def)

section \<open>Configuration resolution\<close>

lemma default_nanoseconds:
  "Second * 5 = (5000000000 :: 64 word)" "Minute = (60000000000 :: 64 word)"
  by (simp_all add: Second_def Minute_def)

lemma optionMerge_fields:
  "Timeout (optionMerge ec opt) = (if Timeout opt = 0 then 5000000000 else Timeout opt)"
  "MaxIdldConnPerHost (optionMerge ec opt) =
     (if MaxIdldConnPerHost opt = 0 then 2 else MaxIdldConnPerHost opt)"
  "IdleConnTimeout (optionMerge ec opt) =
     (if IdleConnTimeout opt = 0 then 60000000000 else IdleConnTimeout opt)"
  "ReadConsistency (optionMerge ec opt) =
     (if ReadConsistency opt = [] then ec else ReadConsistency opt)"
  "Transport (optionMerge ec opt) = Transport opt"
  by (simp_all add: optionMerge_def defaultOption_def default_nanoseconds Let_def)

lemma optionMerge_set:
  "Timeout p \<noteq> 0 \<Longrightarrow> MaxIdldConnPerHost p \<noteq> 0 \<Longrightarrow> IdleConnTimeout p \<noteq> 0 \<Longrightarrow>
   ReadConsistency p \<noteq> [] \<Longrightarrow> optionMerge ec p = p"
  by (simp add: optionMerge_def Let_def)

text \<open>
  C5. \<open>optionMerge\<close> is a function from configurations to configurations, with no error
  among its results. Each of \<open>Timeout\<close>, \<open>MaxIdldConnPerHost\<close>, \<open>IdleConnTimeout\<close> and
  \<open>ReadConsistency\<close> that is zero (empty, for the string) becomes its default: 5 seconds,
  2, 60 seconds (both in nanoseconds) and the eventual consistency constant. A field
  that is set keeps its value, and the transport is never touched.
\<close>

theorem optionMerge_defaults:
  "optionMerge ec opt =
     \<lparr>Timeout = (if Timeout opt = 0 then 5000000000 else Timeout opt),
      MaxIdldConnPerHost = (if MaxIdldConnPerHost opt = 0 then 2 else MaxIdldConnPerHost opt),
      IdleConnTimeout = (if IdleConnTimeout opt = 0 then 60000000000 else IdleConnTimeout opt),
      ReadConsistency = (if ReadConsistency opt = [] then ec else ReadConsistency opt),
      Transport = Transport opt\<rparr>"
  by (simp add: optionMerge_def defaultOption_def default_nanoseconds Let_def)

text \<open>The configuration of the example test: 50 idle connections and 30 seconds are kept.\<close>

theorem optionMerge_defaults_witness:
  "optionMerge ''eventualConsistency''
     \<lparr>Timeout = 0, MaxIdldConnPerHost = 50, IdleConnTimeout = 30000000000, ReadConsistency = [],
      Transport = (None :: unit option)\<rparr>
   = \<lparr>Timeout = 5000000000, MaxIdldConnPerHost = 50, IdleConnTimeout = 30000000000,
      ReadConsistency = ''eventualConsistency'', Transport = None\<rparr>"
  using optionMerge_defaults [of "''eventualConsistency''"
     "\<lparr>Timeout = 0, MaxIdldConnPerHost = 50, IdleConnTimeout = 30000000000, ReadConsistency = [],
      Transport = (None :: unit option)\<rparr>"]
  by simp

text \<open>
  C6. When the eventual consistency constant is not the empty string, none of the four
  fields of a resolved configuration is zero. A configuration with all four fields set
  is returned as it is, and resolving twice is resolving once.
\<close>

theorem optionMerge_idempotent:
  assumes "ec \<noteq> []"
  shows "Timeout (optionMerge ec opt) \<noteq> 0 \<and> MaxIdldConnPerHost (optionMerge ec opt) \<noteq> 0
       \<and> IdleConnTimeout (optionMerge ec opt) \<noteq> 0 \<and> ReadConsistency (optionMerge ec opt) \<noteq> []
       \<and> (Timeout opt \<noteq> 0 \<and> MaxIdldConnPerHost opt \<noteq> 0 \<and> IdleConnTimeout opt \<noteq> 0
            \<and> ReadConsistency opt \<noteq> [] \<longrightarrow> optionMerge ec opt = opt)
       \<and> optionMerge ec (optionMerge ec opt) = optionMerge ec opt"
proof -
  have nz: "Timeout (optionMerge ec opt) \<noteq> 0" "MaxIdldConnPerHost (optionMerge ec opt) \<noteq> 0"
    "IdleConnTimeout (optionMerge ec opt) \<noteq> 0" "ReadConsistency (optionMerge ec opt) \<noteq> []"
    using assms by (simp_all add: optionMerge_fields)
  then have "optionMerge ec (optionMerge ec opt) = optionMerge ec opt"
    by (rule optionMerge_set)
  with nz optionMerge_set [of opt ec] show ?thesis by blast
qed

theorem optionMerge_idempotent_witness:
  "''eventualConsistency'' \<noteq> []
   \<and> Timeout (optionMerge ''eventualConsistency'' (defaultOption ''eventualConsistency'' :: unit ClientOption)) \<noteq> 0
   \<and> optionMerge ''eventualConsistency'' (defaultOption ''eventualConsistency'' :: unit ClientOption)
       = defaultOption ''eventualConsistency''
   \<and> optionMerge ''eventualConsistency''
        (optionMerge ''eventualConsistency'' (defaultOption ''eventualConsistency'' :: unit ClientOption))
       = optionMerge ''eventualConsistency'' (defaultOption ''eventualConsistency'')"
proof -
  have ec: "''eventualConsistency'' \<noteq> []" by simp
  from optionMerge_idempotent [OF ec, of "defaultOption ''eventualConsistency'' :: unit ClientOption"]
  show ?thesis by (simp add: defaultOption_def default_nanoseconds)
qed

section \<open>Construction\<close>

text \<open>
  C7. \<open>NewClient\<close> and \<open>newClient\<close> return an error, \<open>InvalidUrl\<close> or \<open>EmptyCredentials\<close>,
  exactly when the URL does not begin with \<open>http\<close> or the user name is empty or the key
  is empty; otherwise they return a client that holds the URL, the user name and the
  key given. Neither takes or returns the state of the network: they make no call.
\<close>

theorem newClient_validates:
  "(NewClient ec u name k opt = Inl (InvalidUrl u) \<or> NewClient ec u name k opt = Inl EmptyCredentials)
     = ((\<nexists>rest. u = ''http'' @ rest) \<or> name = [] \<or> k = [])
   \<and> (\<exists>c. NewClient ec u name k opt = Inr c \<and> url c = u \<and> username c = name \<and> key c = k)
     = ((\<exists>rest. u = ''http'' @ rest) \<and> name \<noteq> [] \<and> k \<noteq> [])
   \<and> (newClient ec u name k opt' = Inl (InvalidUrl u) \<or> newClient ec u name k opt' = Inl EmptyCredentials)
     = ((\<nexists>rest. u = ''http'' @ rest) \<or> name = [] \<or> k = [])
   \<and> (\<exists>c. newClient ec u name k opt' = Inr c \<and> url c = u \<and> username c = name \<and> key c = k)
     = ((\<exists>rest. u = ''http'' @ rest) \<and> name \<noteq> [] \<and> k \<noteq> [])"
  unfolding NewClient_def newClient_def HasPrefix_iff [symmetric]
  by (auto simp: Let_def)

text \<open>Scenario A of the specification, a URL without the prefix, and an empty key.\<close>

theorem newClient_validates_witness:
  "NewClient ''eventualConsistency'' ''http://host:8100'' ''root'' ''k'' None = Inr test_Client
   \<and> url test_Client = ''http://host:8100'' \<and> username test_Client = ''root'' \<and> key test_Client = ''k''
   \<and> NewClient ''eventualConsistency'' ''host:8100'' ''root'' ''k'' (None :: unit ClientOption option)
       = Inl (InvalidUrl ''host:8100'')
   \<and> NewClient ''eventualConsistency'' ''http://host:8100'' ''root'' [] (None :: unit ClientOption option)
       = Inl EmptyCredentials"
  using newClient_validates [of "''eventualConsistency''" "''http://host:8100''" "''root''" "''k''"
      "None :: unit ClientOption option"]
    newClient_validates [of "''eventualConsistency''" "''host:8100''" "''root''" "''k''"
      "None :: unit ClientOption option"]
    newClient_validates [of "''eventualConsistency''" "''http://host:8100''" "''root''" "[]"
      "None :: unit ClientOption option"]
  by (simp add: NewClient_def newClient_def HasPrefix_def test_Client_def optionMerge_def
      defaultOption_def Let_def Second_def Minute_def)

section \<open>Classification of a response\<close>

text \<open>Truncating division by 100 gives 2 exactly on the statuses 200 to 299.\<close>

lemma sdiv_100: "((s::int) sdiv 100 = 2) = (200 \<le> s \<and> s \<le> 299)"
  unfolding signed_divide_int_def
  by (cases "s \<ge> 0") (auto simp: sgn_if)

lemma handleResponse_unreadable:
  "Body res = Inl err \<Longrightarrow> handleResponse d c res out lg = (Some err, out, lg)"
  by (simp add: handleResponse_def)

lemma handleResponse_read:
  "Body res = Inr body \<Longrightarrow>
   handleResponse d c res out lg =
     (let lg' = (if debug c
                 then lg @ [''[DEBUG] RESPONSE: '' @ itoa (StatusCode res) @ '' '' @ body]
                 else lg)
      in if \<not> (200 \<le> StatusCode res \<and> StatusCode res \<le> 299)
         then (Some (TransportError (StatusCode res) body), out, lg')
         else if \<not> json_Valid d body then (Some (InvalidContent body), out, lg')
         else
           (case json_Unmarshal_CommmonResponse d body \<lparr>Code = 0, Msg = []\<rparr> of
              (Some err, commenRes) \<Rightarrow> (Some (UnmarshalFailed err body), out, lg')
            | (None, commenRes) \<Rightarrow>
                if Code commenRes \<noteq> 0
                then (Some (ServiceError (Code commenRes) (Msg commenRes)), out, lg')
                else
                  (case json_Unmarshal d body out of
                     (Some err, out') \<Rightarrow> (Some (UnmarshalFailed err body), out', lg')
                   | (None, out') \<Rightarrow> (None, out', lg'))))"
  by (simp add: handleResponse_def sdiv_100 Let_def)

lemmas test_defs = test_deps_def test_Valid_def test_Unmarshal_CommmonResponse_def
  test_Unmarshal_def doc_not_exist_def doc_dropped_def doc_array_def doc_bad_count_def

text \<open>
  C1, as the code has it. When the body of the response cannot be read,
  \<open>handleResponse\<close> returns the read error itself, whatever the status, and leaves the
  result argument and the log as they were. When the body has been read: a status
  outside 200 to 299 gives the Transport Error with the status and the body; otherwise
  a body that is not valid JSON gives a Malformed Response Error; otherwise an envelope
  that does not decode gives a Malformed Response Error, and one that decodes with a
  code other than 0 gives the Service Error with that code and message; otherwise the
  body is decoded into the result, which fails with a Malformed Response Error only if
  that decode fails. The error is \<open>nil\<close> exactly when the body has been read, the
  status is 2xx, the body is valid JSON, the envelope decodes with code 0 and the
  result decodes.
\<close>

theorem handleResponse_classification:
  "(\<forall>err. Body res = Inl err \<longrightarrow> handleResponse d c res out lg = (Some err, out, lg))
   \<and> (\<forall>body. Body res = Inr body \<longrightarrow>
         (\<not> (200 \<le> StatusCode res \<and> StatusCode res \<le> 299) \<longrightarrow>
            fst (handleResponse d c res out lg) = Some (TransportError (StatusCode res) body))
       \<and> (200 \<le> StatusCode res \<and> StatusCode res \<le> 299 \<and> \<not> json_Valid d body \<longrightarrow>
            fst (handleResponse d c res out lg) = Some (InvalidContent body))
       \<and> (200 \<le> StatusCode res \<and> StatusCode res \<le> 299 \<and> json_Valid d body \<longrightarrow>
            (\<forall>e cr. json_Unmarshal_CommmonResponse d body \<lparr>Code = 0, Msg = []\<rparr> = (Some e, cr) \<longrightarrow>
               fst (handleResponse d c res out lg) = Some (UnmarshalFailed e body))
          \<and> (\<forall>cr. json_Unmarshal_CommmonResponse d body \<lparr>Code = 0, Msg = []\<rparr> = (None, cr)
                  \<and> Code cr \<noteq> 0 \<longrightarrow>
               fst (handleResponse d c res out lg) = Some (ServiceError (Code cr) (Msg cr)))
          \<and> (\<forall>cr. json_Unmarshal_CommmonResponse d body \<lparr>Code = 0, Msg = []\<rparr> = (None, cr)
                  \<and> Code cr = 0 \<longrightarrow>
               (\<forall>e out'. json_Unmarshal d body out = (Some e, out') \<longrightarrow>
                  fst (handleResponse d c res out lg) = Some (UnmarshalFailed e body))
             \<and> (\<forall>out'. json_Unmarshal d body out = (None, out') \<longrightarrow>
                  fst (handleResponse d c res out lg) = None
                  \<and> fst (snd (handleResponse d c res out lg)) = out'))))
   \<and> (fst (handleResponse d c res out lg) = None) =
       (\<exists>body. Body res = Inr body
          \<and> 200 \<le> StatusCode res \<and> StatusCode res \<le> 299 \<and> json_Valid d body
          \<and> (\<exists>cr. json_Unmarshal_CommmonResponse d body \<lparr>Code = 0, Msg = []\<rparr> = (None, cr)
                \<and> Code cr = 0)
          \<and> (\<exists>out'. json_Unmarshal d body out = (None, out')))"
proof (cases "Body res")
  case (Inl err)
  then show ?thesis by (simp add: handleResponse_unreadable)
next
  case (Inr body)
  show ?thesis
    unfolding handleResponse_read [OF Inr]
    using Inr by (auto simp: Let_def split: prod.splits option.splits)
qed

text \<open>One response for each outcome, on the test decoder.\<close>

theorem handleResponse_classification_witness:
  \<open>handleResponse test_deps test_Client \<lparr>StatusCode = 200, Body = Inl (LibError ''unexpected EOF'')\<rparr>
          \<lparr>AffectedCount = 0\<rparr> []
     = (Some (LibError ''unexpected EOF''), \<lparr>AffectedCount = 0\<rparr>, [])
   \<and> fst (handleResponse test_deps test_Client \<lparr>StatusCode = 404, Body = Inr ''404 page not found''\<rparr>
          \<lparr>AffectedCount = 0\<rparr> [])
     = Some (TransportError 404 ''404 page not found'')
   \<and> fst (handleResponse test_deps test_Client \<lparr>StatusCode = 200, Body = Inr ''<html>''\<rparr>
          \<lparr>AffectedCount = 0\<rparr> [])
     = Some (InvalidContent ''<html>'')
   \<and> fst (handleResponse test_deps test_Client \<lparr>StatusCode = 200, Body = Inr ''[]''\<rparr>
          \<lparr>AffectedCount = 0\<rparr> [])
     = Some (UnmarshalFailed
              (LibError ''json: cannot unmarshal array into Go value of type tcvectordb.CommmonResponse'')
              ''[]'')
   \<and> fst (handleResponse test_deps test_Client
          \<lparr>StatusCode = 200, Body = Inr ''{"code":1,"msg":"collection not exist"}''\<rparr>
          \<lparr>AffectedCount = 0\<rparr> [])
     = Some (ServiceError 1 ''collection not exist'')
   \<and> fst (handleResponse test_deps test_Client
          \<lparr>StatusCode = 200, Body = Inr ''{"code":0,"affectedCount":"one"}''\<rparr>
          \<lparr>AffectedCount = 0\<rparr> [])
     = Some (UnmarshalFailed
              (LibError ''json: cannot unmarshal string into Go struct field Res.affectedCount of type int'')
              ''{"code":0,"affectedCount":"one"}'')
   \<and> handleResponse test_deps test_Client
          \<lparr>StatusCode = 200, Body = Inr ''{"code":0,"msg":"Operation success","affectedCount":1}''\<rparr>
          \<lparr>AffectedCount = 0\<rparr> []
     = (None, \<lparr>AffectedCount = 1\<rparr>, [])\<close>
  using
    handleResponse_classification [where d = test_deps and c = test_Client
      and out = \<open>\<lparr>AffectedCount = 0\<rparr>\<close> and lg = \<open>[]\<close>
      and res = \<open>\<lparr>StatusCode = 200, Body = Inl (LibError ''unexpected EOF'')\<rparr>\<close>]
    handleResponse_classification [where d = test_deps and c = test_Client
      and out = \<open>\<lparr>AffectedCount = 0\<rparr>\<close> and lg = \<open>[]\<close>
      and res = \<open>\<lparr>StatusCode = 404, Body = Inr ''404 page not found''\<rparr>\<close>]
    handleResponse_classification [where d = test_deps and c = test_Client
      and out = \<open>\<lparr>AffectedCount = 0\<rparr>\<close> and lg = \<open>[]\<close>
      and res = \<open>\<lparr>StatusCode = 200, Body = Inr ''<html>''\<rparr>\<close>]
    handleResponse_classification [where d = test_deps and c = test_Client
      and out = \<open>\<lparr>AffectedCount = 0\<rparr>\<close> and lg = \<open>[]\<close>
      and res = \<open>\<lparr>StatusCode = 200, Body = Inr ''[]''\<rparr>\<close>]
    handleResponse_classification [where d = test_deps and c = test_Client
      and out = \<open>\<lparr>AffectedCount = 0\<rparr>\<close> and lg = \<open>[]\<close>
      and res = \<open>\<lparr>StatusCode = 200, Body = Inr ''{"code":1,"msg":"collection not exist"}''\<rparr>\<close>]
    handleResponse_classification [where d = test_deps and c = test_Client
      and out = \<open>\<lparr>AffectedCount = 0\<rparr>\<close> and lg = \<open>[]\<close>
      and res = \<open>\<lparr>StatusCode = 200, Body = Inr ''{"code":0,"affectedCount":"one"}''\<rparr>\<close>]
    handleResponse_classification [where d = test_deps and c = test_Client
      and out = \<open>\<lparr>AffectedCount = 0\<rparr>\<close> and lg = \<open>[]\<close>
      and res = \<open>\<lparr>StatusCode = 200,
                     Body = Inr ''{"code":0,"msg":"Operation success","affectedCount":1}''\<rparr>\<close>]
  by (simp add: handleResponse_def test_defs test_Client_def Let_def signed_divide_int_def)

text \<open>
  A response with status 500 whose body cannot be read: what comes back is the read
  error, which carries neither the status nor a body, and no Transport Error.
\<close>

theorem handleResponse_classification_counterexample:
  "\<not> (200 \<le> StatusCode \<lparr>StatusCode = 500, Body = Inl (LibError ''unexpected EOF'')\<rparr>
        \<and> StatusCode \<lparr>StatusCode = 500, Body = Inl (LibError ''unexpected EOF'')\<rparr> \<le> 299)
   \<and> fst (handleResponse test_deps test_Client
            \<lparr>StatusCode = 500, Body = Inl (LibError ''unexpected EOF'')\<rparr> \<lparr>AffectedCount = 0\<rparr> [])
       = Some (LibError ''unexpected EOF'')
   \<and> \<not> (\<exists>body. fst (handleResponse test_deps test_Client
            \<lparr>StatusCode = 500, Body = Inl (LibError ''unexpected EOF'')\<rparr> \<lparr>AffectedCount = 0\<rparr> [])
          = Some (TransportError 500 body))"
  by (simp add: handleResponse_def)

text \<open>
  C2. When the envelope of a response decodes with a code other than 0 (the envelope
  is decoded when the status is 2xx and the body valid JSON), \<open>handleResponse\<close>
  returns the Service Error with the code and the message of the envelope, and the
  result argument is what it was before the call. Whenever \<open>handleResponse\<close> returns
  a Service Error, on any response, nothing has been decoded into the result argument.
\<close>

theorem handleResponse_service_error:
  "(Body res = Inr body \<and> 200 \<le> StatusCode res \<and> StatusCode res \<le> 299 \<and> json_Valid d body
      \<and> json_Unmarshal_CommmonResponse d body \<lparr>Code = 0, Msg = []\<rparr> = (None, cr) \<and> Code cr \<noteq> 0
    \<longrightarrow> fst (handleResponse d c res out lg) = Some (ServiceError (Code cr) (Msg cr))
        \<and> fst (snd (handleResponse d c res out lg)) = out)
   \<and> (\<forall>code m. fst (handleResponse d c res out lg) = Some (ServiceError code m)
        \<longrightarrow> fst (snd (handleResponse d c res out lg)) = out)"
proof (intro conjI impI allI)
  assume a: "Body res = Inr body \<and> 200 \<le> StatusCode res \<and> StatusCode res \<le> 299 \<and> json_Valid d body
      \<and> json_Unmarshal_CommmonResponse d body \<lparr>Code = 0, Msg = []\<rparr> = (None, cr) \<and> Code cr \<noteq> 0"
  then have b: "Body res = Inr body" by simp
  from a show "fst (handleResponse d c res out lg) = Some (ServiceError (Code cr) (Msg cr))"
    unfolding handleResponse_read [OF b] by (simp add: Let_def)
  from a show "fst (snd (handleResponse d c res out lg)) = out"
    unfolding handleResponse_read [OF b] by (simp add: Let_def)
next
  fix code m
  assume "fst (handleResponse d c res out lg) = Some (ServiceError code m)"
  then show "fst (snd (handleResponse d c res out lg)) = out"
    by (auto simp: handleResponse_def Let_def split: sum.splits prod.splits option.splits if_splits)
qed

text \<open>Scenario E of the specification: the result stays at its zero value.\<close>

theorem handleResponse_service_error_witness:
  \<open>fst (handleResponse test_deps test_Client
          \<lparr>StatusCode = 200, Body = Inr ''{"code":1,"msg":"collection not exist"}''\<rparr>
          \<lparr>AffectedCount = 0\<rparr> [])
     = Some (ServiceError 1 ''collection not exist'')
   \<and> fst (snd (handleResponse test_deps test_Client
          \<lparr>StatusCode = 200, Body = Inr ''{"code":1,"msg":"collection not exist"}''\<rparr>
          \<lparr>AffectedCount = 0\<rparr> []))
     = \<lparr>AffectedCount = 0\<rparr>
   \<and> Error (ServiceError 1 ''collection not exist'') = ''code: 1, message: collection not exist''\<close>
  using handleResponse_service_error [where d = test_deps and c = test_Client
      and res = \<open>\<lparr>StatusCode = 200, Body = Inr ''{"code":1,"msg":"collection not exist"}''\<rparr>\<close>
      and body = \<open>''{"code":1,"msg":"collection not exist"}''\<close>
      and cr = \<open>\<lparr>Code = 1, Msg = ''collection not exist''\<rparr>\<close>
      and out = \<open>\<lparr>AffectedCount = 0\<rparr>\<close> and lg = \<open>[]\<close>]
  by (simp add: test_defs itoa_1)

section \<open>The debug flag\<close>

lemma handleResponse_err_indep:
  "fst (handleResponse d (c\<lparr>debug := b\<rparr>) res out lg)
     = fst (handleResponse d (c\<lparr>debug := b'\<rparr>) res out lg')"
  by (simp add: handleResponse_def Let_def split: sum.splits prod.splits option.splits)

lemma handleResponse_out_indep:
  "fst (snd (handleResponse d (c\<lparr>debug := b\<rparr>) res out lg))
     = fst (snd (handleResponse d (c\<lparr>debug := b'\<rparr>) res out lg'))"
  by (simp add: handleResponse_def Let_def split: sum.splits prod.splits option.splits)

lemma handleResponse_log:
  "snd (snd (handleResponse d c res out lg)) =
     lg @ (case Body res of
             Inl err \<Rightarrow> []
           | Inr body \<Rightarrow>
               if debug c then [''[DEBUG] RESPONSE: '' @ itoa (StatusCode res) @ '' '' @ body] else [])"
  by (simp add: handleResponse_def Let_def split: sum.splits prod.splits option.splits)

lemma Request_err_indep:
  "fst (Request d (c\<lparr>debug := b\<rparr>) req out w lg) = fst (Request d (c\<lparr>debug := b'\<rparr>) req out w lg')"
  by (auto simp: Request_def Let_def case_prod_beta split: sum.splits intro: handleResponse_err_indep)

lemma Request_out_indep:
  "fst (snd (Request d (c\<lparr>debug := b\<rparr>) req out w lg))
     = fst (snd (Request d (c\<lparr>debug := b'\<rparr>) req out w lg'))"
  by (auto simp: Request_def Let_def case_prod_beta split: sum.splits intro: handleResponse_out_indep)

lemma Request_world_indep:
  "fst (snd (snd (Request d (c\<lparr>debug := b\<rparr>) req out w lg)))
     = fst (snd (snd (Request d (c\<lparr>debug := b'\<rparr>) req out w lg')))"
  by (auto simp: Request_def Let_def case_prod_beta split: sum.splits)

lemma Request_log:
  "\<exists>added. snd (snd (snd (Request d c req out w lg))) = lg @ added
     \<and> (added = []
        \<or> debug c \<and> (\<exists>reqBody. json_Encode d req = Inr reqBody
             \<and> (added = [''[DEBUG] REQUEST, Method: '' @ api_Method d req @ '', Path: ''
                           @ api_Path d req @ '', Body: '' @ TrimSpace reqBody]
                \<or> (\<exists>st body. added = [''[DEBUG] REQUEST, Method: '' @ api_Method d req @ '', Path: ''
                           @ api_Path d req @ '', Body: '' @ TrimSpace reqBody,
                           ''[DEBUG] RESPONSE: '' @ itoa st @ '' '' @ body]))))"
  by (auto simp: Request_def Let_def case_prod_beta handleResponse_log split: sum.splits)

lemma itoa_200: "itoa 200 = ''200''"
  by (simp add: itoa_def decimal.simps digit_char_def)

text \<open>
  C9. With the flag set by \<open>Debug\<close> to true or to false, \<open>Request\<close> returns the same
  error, leaves the same value in the result argument and the network in the same
  state, and so does \<open>handleResponse\<close>. Without the flag the log is untouched. With
  it the log is only extended: \<open>Request\<close> adds nothing, or the line of the request
  (verb, path and trimmed body), or that line and the line of a response (status and
  body); \<open>handleResponse\<close> adds the line of the response whose body it has read.
\<close>

theorem debug_only_logs:
  "fst (Request d (Debug c True) req out w lg) = fst (Request d (Debug c False) req out w lg)
   \<and> fst (snd (Request d (Debug c True) req out w lg)) = fst (snd (Request d (Debug c False) req out w lg))
   \<and> fst (snd (snd (Request d (Debug c True) req out w lg)))
       = fst (snd (snd (Request d (Debug c False) req out w lg)))
   \<and> snd (snd (snd (Request d (Debug c False) req out w lg))) = lg
   \<and> (\<exists>added. snd (snd (snd (Request d (Debug c True) req out w lg))) = lg @ added
        \<and> (added = []
           \<or> (\<exists>reqBody. json_Encode d req = Inr reqBody
                \<and> (added = [''[DEBUG] REQUEST, Method: '' @ api_Method d req @ '', Path: ''
                              @ api_Path d req @ '', Body: '' @ TrimSpace reqBody]
                   \<or> (\<exists>st body. added = [''[DEBUG] REQUEST, Method: '' @ api_Method d req @ '', Path: ''
                              @ api_Path d req @ '', Body: '' @ TrimSpace reqBody,
                              ''[DEBUG] RESPONSE: '' @ itoa st @ '' '' @ body])))))
   \<and> fst (handleResponse d (Debug c True) res out lg) = fst (handleResponse d (Debug c False) res out lg)
   \<and> fst (snd (handleResponse d (Debug c True) res out lg))
       = fst (snd (handleResponse d (Debug c False) res out lg))
   \<and> snd (snd (handleResponse d (Debug c False) res out lg)) = lg
   \<and> snd (snd (handleResponse d (Debug c True) res out lg))
       = lg @ (case Body res of
                 Inl err \<Rightarrow> []
               | Inr body \<Rightarrow> [''[DEBUG] RESPONSE: '' @ itoa (StatusCode res) @ '' '' @ body])"
proof -
  have off: "snd (snd (snd (Request d (Debug c False) req out w lg))) = lg"
    using Request_log [of d "Debug c False" req out w lg] by (auto simp: Debug_def)
  have on: "\<exists>added. snd (snd (snd (Request d (Debug c True) req out w lg))) = lg @ added
        \<and> (added = []
           \<or> (\<exists>reqBody. json_Encode d req = Inr reqBody
                \<and> (added = [''[DEBUG] REQUEST, Method: '' @ api_Method d req @ '', Path: ''
                              @ api_Path d req @ '', Body: '' @ TrimSpace reqBody]
                   \<or> (\<exists>st body. added = [''[DEBUG] REQUEST, Method: '' @ api_Method d req @ '', Path: ''
                              @ api_Path d req @ '', Body: '' @ TrimSpace reqBody,
                              ''[DEBUG] RESPONSE: '' @ itoa st @ '' '' @ body]))))"
    using Request_log [of d "Debug c True" req out w lg] by blast
  have hoff: "snd (snd (handleResponse d (Debug c False) res out lg)) = lg"
    by (simp add: handleResponse_log Debug_def split: sum.splits)
  have hon: "snd (snd (handleResponse d (Debug c True) res out lg))
       = lg @ (case Body res of
                 Inl err \<Rightarrow> []
               | Inr body \<Rightarrow> [''[DEBUG] RESPONSE: '' @ itoa (StatusCode res) @ '' '' @ body])"
    by (simp add: handleResponse_log Debug_def split: sum.splits)
  have e: "fst (Request d (Debug c True) req out w lg) = fst (Request d (Debug c False) req out w lg)"
    unfolding Debug_def by (rule Request_err_indep)
  have r: "fst (snd (Request d (Debug c True) req out w lg))
             = fst (snd (Request d (Debug c False) req out w lg))"
    unfolding Debug_def by (rule Request_out_indep)
  have n: "fst (snd (snd (Request d (Debug c True) req out w lg)))
             = fst (snd (snd (Request d (Debug c False) req out w lg)))"
    unfolding Debug_def by (rule Request_world_indep)
  have he: "fst (handleResponse d (Debug c True) res out lg)
              = fst (handleResponse d (Debug c False) res out lg)"
    unfolding Debug_def by (rule handleResponse_err_indep)
  have hr: "fst (snd (handleResponse d (Debug c True) res out lg))
              = fst (snd (handleResponse d (Debug c False) res out lg))"
    unfolding Debug_def by (rule handleResponse_out_indep)
  show ?thesis
    by (intro conjI) (fact e r n off on he hr hoff hon)+
qed

text \<open>A drop request answered with the document of scenario E, with and without the flag.\<close>

theorem debug_only_logs_witness:
  \<open>Request test_deps (Debug test_Client True) \<lparr>DropReq_Database = ''dbtest1''\<rparr> \<lparr>AffectedCount = 0\<rparr>
       [reply 200 ''{"code":1,"msg":"collection not exist"}''] []
     = (Some (ServiceError 1 ''collection not exist''), \<lparr>AffectedCount = 0\<rparr>, [],
        [''[DEBUG] REQUEST, Method: Post, Path: /database/drop, Body: {"database":"dbtest1"}'',
         ''[DEBUG] RESPONSE: 200 {"code":1,"msg":"collection not exist"}''])
   \<and> Request test_deps (Debug test_Client False) \<lparr>DropReq_Database = ''dbtest1''\<rparr> \<lparr>AffectedCount = 0\<rparr>
       [reply 200 ''{"code":1,"msg":"collection not exist"}''] []
     = (Some (ServiceError 1 ''collection not exist''), \<lparr>AffectedCount = 0\<rparr>, [], [])\<close>
  using debug_only_logs [where d = test_deps and c = test_Client
      and req = \<open>\<lparr>DropReq_Database = ''dbtest1''\<rparr>\<close> and out = \<open>\<lparr>AffectedCount = 0\<rparr>\<close>
      and w = \<open>[reply 200 ''{"code":1,"msg":"collection not exist"}'']\<close> and lg = \<open>[]\<close>]
  by (simp add: Request_def handleResponse_def Debug_def test_defs test_Client_def test_Do_def
      reply_def Let_def signed_divide_int_def TrimSpace_def is_space_def itoa_200)

section \<open>Dropping a database\<close>

lemma DropDatabase_absorbs:
  "sdk \<lparr>DropReq_Database = name\<rparr> new_res w = ((Some err, res'), w') \<Longrightarrow>
   Contains (Error err) ''not exist'' \<Longrightarrow> DropDatabase sdk new_res name w = (None, w')"
  by (simp add: DropDatabase_def)

lemma DropDatabase_returns:
  "fst (DropDatabase sdk new_res name w) = None
   \<or> fst (DropDatabase sdk new_res name w) = fst (fst (sdk \<lparr>DropReq_Database = name\<rparr> new_res w))"
  by (simp add: DropDatabase_def split: prod.splits option.splits)

lemma CreateDatabase_returns:
  "fst (CreateDatabase sdk new_res name w) = (Some (Database name), None)
   \<or> (\<exists>err. fst (CreateDatabase sdk new_res name w) = (None, Some err))"
  by (simp add: CreateDatabase_def split: prod.splits option.splits)

lemma test_drop_not_exist:
  \<open>Client_SdkClient test_deps test_Client \<lparr>DropReq_Database = ''dbtest1''\<rparr> \<lparr>AffectedCount = 0\<rparr>
      (reply 200 ''{"code":1,"msg":"collection not exist"}'' # rs, lg)
    = ((Some (ServiceError 1 ''collection not exist''), \<lparr>AffectedCount = 0\<rparr>), (rs, lg))\<close>
  by (simp add: Client_SdkClient_def Request_def handleResponse_def test_defs test_Client_def
      test_Do_def reply_def Let_def signed_divide_int_def)

text \<open>
  C4, as the code has it. \<open>DropDatabase\<close> returns one value, the error. When the
  dispatch returns a Service Error whose message contains \<open>not exist\<close>, that value is
  \<open>nil\<close>; when a second call meets the same answer it is \<open>nil\<close> again. No result
  and no affected-count is returned.
\<close>

theorem DropDatabase_not_exist:
  assumes "sdk \<lparr>DropReq_Database = name\<rparr> new_res w = ((Some (ServiceError code m), res'), w')"
    and "Contains m ''not exist''"
    and "sdk \<lparr>DropReq_Database = name\<rparr> new_res w' = ((Some (ServiceError code' m'), res''), w'')"
    and "Contains m' ''not exist''"
  shows "DropDatabase sdk new_res name w = (None, w')
       \<and> DropDatabase sdk new_res name w' = (None, w'')"
  using assms DropDatabase_absorbs Error_ServiceError_Contains by metis

text \<open>
  Two drops through the client of the previous sections, the service answering both
  with the document of scenario E.
\<close>

theorem DropDatabase_not_exist_witness:
  \<open>DropDatabase (Client_SdkClient test_deps test_Client) \<lparr>AffectedCount = 0\<rparr> ''dbtest1''
     ([reply 200 ''{"code":1,"msg":"collection not exist"}'',
       reply 200 ''{"code":1,"msg":"collection not exist"}''], [])
     = (None, ([reply 200 ''{"code":1,"msg":"collection not exist"}''], []))
   \<and> DropDatabase (Client_SdkClient test_deps test_Client) \<lparr>AffectedCount = 0\<rparr> ''dbtest1''
     ([reply 200 ''{"code":1,"msg":"collection not exist"}''], [])
     = (None, ([], []))\<close>
proof -
  have c: "Contains ''collection not exist'' ''not exist''"
    by (simp add: HasPrefix_def)
  show ?thesis
    by (rule DropDatabase_not_exist
          [where sdk = "Client_SdkClient test_deps test_Client" and name = "''dbtest1''"
             and new_res = "\<lparr>AffectedCount = 0\<rparr>",
           OF test_drop_not_exist c test_drop_not_exist c])
qed

text \<open>
  The value returned for a database that does not exist is the \<open>nil\<close> that is also
  returned when the service reports one database dropped: nothing read from the
  returned value can be 0 in the first case and 1 in the second.
\<close>

theorem DropDatabase_result_counterexample:
  "fst (DropDatabase test_SdkClient (0::int) ''dbtest1''
          [(Some (ServiceError 1 ''database not exist''), 0)]) = None
   \<and> fst (DropDatabase test_SdkClient (0::int) ''dbtest1'' [(None, 1)]) = None
   \<and> \<not> (\<exists>count :: error option \<Rightarrow> int.
          count (fst (DropDatabase test_SdkClient (0::int) ''dbtest1''
                   [(Some (ServiceError 1 ''database not exist''), 0)])) = 0
          \<and> count (fst (DropDatabase test_SdkClient (0::int) ''dbtest1'' [(None, 1)])) = 1)"
  by (simp add: DropDatabase_def test_SdkClient_def HasPrefix_def itoa_1)

section \<open>Aliases\<close>

lemma SetAlias_databaseName_cases:
  "sdk \<lparr>SetReq_Database = dn, SetReq_Collection = cn, SetReq_Alias = an\<rparr>
       (Some \<lparr>SetRes_AffectedCount = 0\<rparr>) w = ((err, res'), w') \<Longrightarrow>
   SetAlias_databaseName sdk dn cn an w =
     (case err of
        Some e \<Rightarrow> (Return (Some \<lparr>SetAliasResult_AffectedCount = 0\<rparr>, Some e), w')
      | None \<Rightarrow>
          (case res' of
             None \<Rightarrow> (Panic, w')
           | Some r \<Rightarrow>
               (Return (Some \<lparr>SetAliasResult_AffectedCount = SetRes_AffectedCount r\<rparr>, None), w')))"
  by (simp add: SetAlias_databaseName_def split: option.splits)

lemma DeleteAlias_databaseName_cases:
  "sdk \<lparr>DeleteReq_Database = dn, DeleteReq_Alias = an\<rparr>
       (Some \<lparr>DeleteRes_AffectedCount = 0\<rparr>) w = ((err, res'), w') \<Longrightarrow>
   DeleteAlias_databaseName sdk dn an w =
     (case err of
        Some e \<Rightarrow> (Return (Some \<lparr>DeleteAliasResult_AffectedCount = 0\<rparr>, Some e), w')
      | None \<Rightarrow>
          (case res' of
             None \<Rightarrow> (Panic, w')
           | Some r \<Rightarrow>
               (Return (Some \<lparr>DeleteAliasResult_AffectedCount = DeleteRes_AffectedCount r\<rparr>, None), w')))"
  by (simp add: DeleteAlias_databaseName_def split: option.splits)

text \<open>Past the gate, the two implementations of an alias function are the same.\<close>

lemma SetAlias_ordinary:
  "\<not> IsAIDatabase database \<Longrightarrow>
   SetAlias sdk database cn an w = SetAlias_databaseName sdk (entity_DatabaseName database) cn an w"
  by (simp add: SetAlias_def SetAlias_databaseName_def)

lemma DeleteAlias_ordinary:
  "\<not> IsAIDatabase database \<Longrightarrow>
   DeleteAlias sdk database an w = DeleteAlias_databaseName sdk (entity_DatabaseName database) an w"
  by (simp add: DeleteAlias_def DeleteAlias_databaseName_def)

text \<open>
  C3. On a database handle whose kind is AI, \<open>SetAlias\<close> and \<open>DeleteAlias\<close> return a
  \<open>nil\<close> result and \<open>AIDbTypeError\<close>, for every collection name and alias name. The
  value does not depend on the client and the state of the network is the one before
  the call: \<open>Request\<close> is not invoked.
\<close>

theorem alias_gate:
  assumes "IsAIDatabase database"
  shows "SetAlias sdk database collectionName aliasName w = (Return (None, Some AIDbTypeError), w)
       \<and> DeleteAlias sdk' database aliasName w' = (Return (None, Some AIDbTypeError), w')"
  using assms by (simp add: SetAlias_def DeleteAlias_def)

text \<open>The prepared replies of the test client are all still there after the calls.\<close>

theorem alias_gate_witness:
  "IsAIDatabase \<lparr>entity_DatabaseName = ''ai_db'', kind = AI\<rparr>
   \<and> SetAlias test_SdkClient \<lparr>entity_DatabaseName = ''ai_db'', kind = AI\<rparr> ''col1'' ''alias1''
       [(None, Some \<lparr>SetRes_AffectedCount = 1\<rparr>)]
     = (Return (None, Some AIDbTypeError), [(None, Some \<lparr>SetRes_AffectedCount = 1\<rparr>)])
   \<and> DeleteAlias test_SdkClient \<lparr>entity_DatabaseName = ''ai_db'', kind = AI\<rparr> ''alias1''
       [(None, Some \<lparr>DeleteRes_AffectedCount = 1\<rparr>)]
     = (Return (None, Some AIDbTypeError), [(None, Some \<lparr>DeleteRes_AffectedCount = 1\<rparr>)])"
proof -
  have ai: "IsAIDatabase \<lparr>entity_DatabaseName = ''ai_db'', kind = AI\<rparr>"
    by (simp add: IsAIDatabase_def)
  from alias_gate [OF ai, where sdk = test_SdkClient and sdk' = test_SdkClient
      and collectionName = "''col1''" and aliasName = "''alias1''"
      and w = "[(None, Some \<lparr>SetRes_AffectedCount = 1\<rparr>)]"
      and w' = "[(None, Some \<lparr>DeleteRes_AffectedCount = 1\<rparr>)]"]
    ai
  show ?thesis by simp
qed

text \<open>
  C10. In the implementation without the gate, when \<open>Request\<close> returns an error,
  \<open>SetAlias\<close> and \<open>DeleteAlias\<close> return a result that is not \<open>nil\<close>, with
  \<open>AffectedCount\<close> 0 whatever the response holds, and that same error. On success
  with a response, \<open>AffectedCount\<close> is the response's.
\<close>

theorem alias_error_result:
  "(sdk \<lparr>SetReq_Database = dn, SetReq_Collection = cn, SetReq_Alias = an\<rparr>
        (Some \<lparr>SetRes_AffectedCount = 0\<rparr>) w = ((Some err, res'), w') \<longrightarrow>
      SetAlias_databaseName sdk dn cn an w
        = (Return (Some \<lparr>SetAliasResult_AffectedCount = 0\<rparr>, Some err), w'))
   \<and> (sdk \<lparr>SetReq_Database = dn, SetReq_Collection = cn, SetReq_Alias = an\<rparr>
        (Some \<lparr>SetRes_AffectedCount = 0\<rparr>) w = ((None, Some r), w') \<longrightarrow>
      SetAlias_databaseName sdk dn cn an w
        = (Return (Some \<lparr>SetAliasResult_AffectedCount = SetRes_AffectedCount r\<rparr>, None), w'))
   \<and> (sdk' \<lparr>DeleteReq_Database = dn, DeleteReq_Alias = an\<rparr>
        (Some \<lparr>DeleteRes_AffectedCount = 0\<rparr>) v = ((Some err, res''), v') \<longrightarrow>
      DeleteAlias_databaseName sdk' dn an v
        = (Return (Some \<lparr>DeleteAliasResult_AffectedCount = 0\<rparr>, Some err), v'))
   \<and> (sdk' \<lparr>DeleteReq_Database = dn, DeleteReq_Alias = an\<rparr>
        (Some \<lparr>DeleteRes_AffectedCount = 0\<rparr>) v = ((None, Some r'), v') \<longrightarrow>
      DeleteAlias_databaseName sdk' dn an v
        = (Return (Some \<lparr>DeleteAliasResult_AffectedCount = DeleteRes_AffectedCount r'\<rparr>, None), v'))"
  by (auto dest: SetAlias_databaseName_cases DeleteAlias_databaseName_cases)

theorem alias_error_result_witness:
  "SetAlias_databaseName test_SdkClient ''dbtest1'' ''col1'' ''alias-col1''
       [(Some (ServiceError 1 ''collection not exist''), Some \<lparr>SetRes_AffectedCount = 7\<rparr>)]
     = (Return (Some \<lparr>SetAliasResult_AffectedCount = 0\<rparr>, Some (ServiceError 1 ''collection not exist'')), [])
   \<and> SetAlias_databaseName test_SdkClient ''dbtest1'' ''col1'' ''alias-col1''
       [(None, Some \<lparr>SetRes_AffectedCount = 1\<rparr>)]
     = (Return (Some \<lparr>SetAliasResult_AffectedCount = 1\<rparr>, None), [])
   \<and> DeleteAlias_databaseName test_SdkClient ''dbtest1'' ''alias-col1''
       [(Some (LibError ''connection refused''), None)]
     = (Return (Some \<lparr>DeleteAliasResult_AffectedCount = 0\<rparr>, Some (LibError ''connection refused'')), [])
   \<and> DeleteAlias_databaseName test_SdkClient ''dbtest1'' ''alias-col1''
       [(None, Some \<lparr>DeleteRes_AffectedCount = 1\<rparr>)]
     = (Return (Some \<lparr>DeleteAliasResult_AffectedCount = 1\<rparr>, None), [])"
  using alias_error_result [where sdk = test_SdkClient and sdk' = test_SdkClient
      and dn = "''dbtest1''" and cn = "''col1''" and an = "''alias-col1''"
      and w = "[(Some (ServiceError 1 ''collection not exist''), Some \<lparr>SetRes_AffectedCount = 7\<rparr>)]"
      and err = "ServiceError 1 ''collection not exist''" and res' = "Some \<lparr>SetRes_AffectedCount = 7\<rparr>"
      and w' = "[]" and v = "[(None, Some \<lparr>DeleteRes_AffectedCount = 1\<rparr>)]" and v' = "[]"
      and r' = "\<lparr>DeleteRes_AffectedCount = 1\<rparr>"]
    alias_error_result [where sdk = test_SdkClient and sdk' = test_SdkClient
      and dn = "''dbtest1''" and cn = "''col1''" and an = "''alias-col1''"
      and w = "[(None, Some \<lparr>SetRes_AffectedCount = 1\<rparr>)]"
      and r = "\<lparr>SetRes_AffectedCount = 1\<rparr>"
      and w' = "[]" and v = "[(Some (LibError ''connection refused''), None)]" and v' = "[]"
      and err = "LibError ''connection refused''" and res'' = None]
  by (simp add: test_SdkClient_def)

text \<open>
  A reply \<open>200 null\<close> through the client of the previous sections: no error, and the
  pointer \<open>res\<close> set to \<open>nil\<close>, so the alias function panics where it reads the count.
  \<open>DropDatabase\<close> and \<open>CreateDatabase\<close> pass \<open>res\<close> and not its address.
\<close>

lemma alias_null_reply_panics:
  \<open>SetAlias_databaseName (Client_SdkClient test_alias_deps test_Client) ''dbtest1'' ''col1''
      ''alias-col1'' ([reply 200 ''null''], [])
    = (Panic, ([], []))\<close>
  by (simp add: SetAlias_databaseName_def Client_SdkClient_def Request_def handleResponse_def
      test_alias_deps_def test_Client_def test_Do_def reply_def Let_def signed_divide_int_def)

text \<open>
  C8, as the code has it. Past the gate (a handle that is not AI, or the implementation
  without the gate) \<open>SetAlias\<close> and \<open>DeleteAlias\<close> are determined by what \<open>Request\<close>
  gives: on an error, a result that is not \<open>nil\<close> with \<open>AffectedCount\<close> 0 and that
  error; on no error and a response, a result that is not \<open>nil\<close> with the response's
  \<open>AffectedCount\<close>; and they panic exactly when there is no error and the response
  pointer is \<open>nil\<close>. On an AI handle the result is \<open>nil\<close>. \<open>DropDatabase\<close> returns
  only an error, \<open>nil\<close> or the one of the dispatch, and \<open>CreateDatabase\<close> a database
  handle or the error of the dispatch: neither returns a count.
\<close>

theorem mutating_results:
  "(\<not> IsAIDatabase database
      \<and> sdk \<lparr>SetReq_Database = entity_DatabaseName database, SetReq_Collection = cn,
              SetReq_Alias = an\<rparr> (Some \<lparr>SetRes_AffectedCount = 0\<rparr>) w = ((err, res'), w')
    \<longrightarrow> SetAlias sdk database cn an w =
          (case err of
             Some e \<Rightarrow> (Return (Some \<lparr>SetAliasResult_AffectedCount = 0\<rparr>, Some e), w')
           | None \<Rightarrow>
               (case res' of
                  None \<Rightarrow> (Panic, w')
                | Some r \<Rightarrow>
                    (Return (Some \<lparr>SetAliasResult_AffectedCount = SetRes_AffectedCount r\<rparr>, None), w')))
        \<and> (fst (SetAlias sdk database cn an w) = Panic) = (err = None \<and> res' = None))
   \<and> (\<not> IsAIDatabase database
      \<and> sdk' \<lparr>DeleteReq_Database = entity_DatabaseName database, DeleteReq_Alias = an\<rparr>
              (Some \<lparr>DeleteRes_AffectedCount = 0\<rparr>) v = ((err', res''), v')
    \<longrightarrow> DeleteAlias sdk' database an v =
          (case err' of
             Some e \<Rightarrow> (Return (Some \<lparr>DeleteAliasResult_AffectedCount = 0\<rparr>, Some e), v')
           | None \<Rightarrow>
               (case res'' of
                  None \<Rightarrow> (Panic, v')
                | Some r \<Rightarrow>
                    (Return (Some \<lparr>DeleteAliasResult_AffectedCount = DeleteRes_AffectedCount r\<rparr>, None), v')))
        \<and> (fst (DeleteAlias sdk' database an v) = Panic) = (err' = None \<and> res'' = None))
   \<and> (sdk \<lparr>SetReq_Database = dn, SetReq_Collection = cn, SetReq_Alias = an\<rparr>
          (Some \<lparr>SetRes_AffectedCount = 0\<rparr>) w = ((err, res'), w')
    \<longrightarrow> SetAlias_databaseName sdk dn cn an w =
          (case err of
             Some e \<Rightarrow> (Return (Some \<lparr>SetAliasResult_AffectedCount = 0\<rparr>, Some e), w')
           | None \<Rightarrow>
               (case res' of
                  None \<Rightarrow> (Panic, w')
                | Some r \<Rightarrow>
                    (Return (Some \<lparr>SetAliasResult_AffectedCount = SetRes_AffectedCount r\<rparr>, None), w')))
        \<and> (fst (SetAlias_databaseName sdk dn cn an w) = Panic) = (err = None \<and> res' = None))
   \<and> (sdk' \<lparr>DeleteReq_Database = dn, DeleteReq_Alias = an\<rparr>
          (Some \<lparr>DeleteRes_AffectedCount = 0\<rparr>) v = ((err', res''), v')
    \<longrightarrow> DeleteAlias_databaseName sdk' dn an v =
          (case err' of
             Some e \<Rightarrow> (Return (Some \<lparr>DeleteAliasResult_AffectedCount = 0\<rparr>, Some e), v')
           | None \<Rightarrow>
               (case res'' of
                  None \<Rightarrow> (Panic, v')
                | Some r \<Rightarrow>
                    (Return (Some \<lparr>DeleteAliasResult_AffectedCount = DeleteRes_AffectedCount r\<rparr>, None), v')))
        \<and> (fst (DeleteAlias_databaseName sdk' dn an v) = Panic) = (err' = None \<and> res'' = None))
   \<and> (IsAIDatabase database \<longrightarrow>
        SetAlias sdk database cn an w = (Return (None, Some AIDbTypeError), w)
        \<and> DeleteAlias sdk' database an v = (Return (None, Some AIDbTypeError), v))
   \<and> (fst (DropDatabase sdk_d new_res name u) = None
       \<or> fst (DropDatabase sdk_d new_res name u)
            = fst (fst (sdk_d \<lparr>DropReq_Database = name\<rparr> new_res u)))
   \<and> fst (CreateDatabase sdk_c new_res' name u') =
       (case fst (fst (sdk_c \<lparr>CreateReq_Database = name\<rparr> new_res' u')) of
          Some e \<Rightarrow> (None, Some e)
        | None \<Rightarrow> (Some (Database name), None))"
proof -
  have s: "SetAlias_databaseName sdk x cn an w =
          (case err of
             Some e \<Rightarrow> (Return (Some \<lparr>SetAliasResult_AffectedCount = 0\<rparr>, Some e), w')
           | None \<Rightarrow>
               (case res' of
                  None \<Rightarrow> (Panic, w')
                | Some r \<Rightarrow>
                    (Return (Some \<lparr>SetAliasResult_AffectedCount = SetRes_AffectedCount r\<rparr>, None), w')))
        \<and> (fst (SetAlias_databaseName sdk x cn an w) = Panic) = (err = None \<and> res' = None)"
    if "sdk \<lparr>SetReq_Database = x, SetReq_Collection = cn, SetReq_Alias = an\<rparr>
          (Some \<lparr>SetRes_AffectedCount = 0\<rparr>) w = ((err, res'), w')" for x
    unfolding SetAlias_databaseName_cases [where sdk = sdk, OF that]
    by (cases err; cases res') simp_all
  have t: "DeleteAlias_databaseName sdk' x an v =
          (case err' of
             Some e \<Rightarrow> (Return (Some \<lparr>DeleteAliasResult_AffectedCount = 0\<rparr>, Some e), v')
           | None \<Rightarrow>
               (case res'' of
                  None \<Rightarrow> (Panic, v')
                | Some r \<Rightarrow>
                    (Return (Some \<lparr>DeleteAliasResult_AffectedCount = DeleteRes_AffectedCount r\<rparr>, None), v')))
        \<and> (fst (DeleteAlias_databaseName sdk' x an v) = Panic) = (err' = None \<and> res'' = None)"
    if "sdk' \<lparr>DeleteReq_Database = x, DeleteReq_Alias = an\<rparr>
          (Some \<lparr>DeleteRes_AffectedCount = 0\<rparr>) v = ((err', res''), v')" for x
    unfolding DeleteAlias_databaseName_cases [where sdk = sdk', OF that]
    by (cases err'; cases res'') simp_all
  have g: "IsAIDatabase database \<longrightarrow>
        SetAlias sdk database cn an w = (Return (None, Some AIDbTypeError), w)
        \<and> DeleteAlias sdk' database an v = (Return (None, Some AIDbTypeError), v)"
    by (simp add: SetAlias_def DeleteAlias_def)
  have cr: "fst (CreateDatabase sdk_c new_res' name u') =
       (case fst (fst (sdk_c \<lparr>CreateReq_Database = name\<rparr> new_res' u')) of
          Some e \<Rightarrow> (None, Some e)
        | None \<Rightarrow> (Some (Database name), None))"
    by (simp add: CreateDatabase_def split: prod.splits option.splits)
  show ?thesis
    apply (intro conjI impI)
    subgoal using s [of "entity_DatabaseName database"] by (simp add: SetAlias_ordinary)
    subgoal using s [of "entity_DatabaseName database"]
      by (simp add: SetAlias_ordinary split: option.splits)
    subgoal using t [of "entity_DatabaseName database"] by (simp add: DeleteAlias_ordinary)
    subgoal using t [of "entity_DatabaseName database"]
      by (simp add: DeleteAlias_ordinary split: option.splits)
    subgoal using s [of dn] by simp
    subgoal using s [of dn] by (simp split: option.splits)
    subgoal using t [of dn] by simp
    subgoal using t [of dn] by (simp split: option.splits)
    subgoal using g by simp
    subgoal using g by simp
    subgoal by (rule DropDatabase_returns)
    subgoal by (rule cr)
    done
qed

text \<open>
  An ordinary handle: a dispatch that fails, one that succeeds with a response holding
  1, one that reports no error and leaves no response; and a database created.
\<close>

theorem mutating_results_witness:
  "\<not> IsAIDatabase \<lparr>entity_DatabaseName = ''dbtest1'', kind = Ordinary\<rparr>
   \<and> SetAlias test_SdkClient \<lparr>entity_DatabaseName = ''dbtest1'', kind = Ordinary\<rparr>
            ''col1'' ''alias-col1'' [(Some (LibError ''connection refused''), None)]
       = (Return (Some \<lparr>SetAliasResult_AffectedCount = 0\<rparr>, Some (LibError ''connection refused'')), [])
   \<and> DeleteAlias test_SdkClient \<lparr>entity_DatabaseName = ''dbtest1'', kind = Ordinary\<rparr>
            ''alias-col1'' [(None, Some \<lparr>DeleteRes_AffectedCount = 1\<rparr>)]
       = (Return (Some \<lparr>DeleteAliasResult_AffectedCount = 1\<rparr>, None), [])
   \<and> SetAlias test_SdkClient \<lparr>entity_DatabaseName = ''dbtest1'', kind = Ordinary\<rparr>
            ''col1'' ''alias-col1'' [(None, None)]
       = (Panic, [])
   \<and> fst (CreateDatabase test_SdkClient (0::int) ''dbtest1'' [(None, 1)])
       = (Some \<lparr>DatabaseName = ''dbtest1'', collImpl_databaseName = ''dbtest1''\<rparr>, None)"
  using mutating_results [where sdk = test_SdkClient and sdk' = test_SdkClient
      and database = "\<lparr>entity_DatabaseName = ''dbtest1'', kind = Ordinary\<rparr>"
      and cn = "''col1''" and an = "''alias-col1''"
      and w = "[(Some (LibError ''connection refused''), None)]"
      and err = "Some (LibError ''connection refused'')" and res' = None and w' = "[]"
      and v = "[(None, Some \<lparr>DeleteRes_AffectedCount = 1\<rparr>)]"
      and err' = None and res'' = "Some \<lparr>DeleteRes_AffectedCount = 1\<rparr>" and v' = "[]"
      and sdk_d = test_SdkClient and sdk_c = test_SdkClient
      and new_res = "0::int" and new_res' = "0::int" and name = "''dbtest1''"
      and u = "[(None, 1)]" and u' = "[(None, 1)]"]
    mutating_results [where sdk = test_SdkClient and sdk' = test_SdkClient
      and database = "\<lparr>entity_DatabaseName = ''dbtest1'', kind = Ordinary\<rparr>"
      and cn = "''col1''" and an = "''alias-col1''"
      and w = "[(None, None)]" and err = None and res' = None and w' = "[]"
      and v = "[(None, Some \<lparr>DeleteRes_AffectedCount = 1\<rparr>)]"
      and err' = None and res'' = "Some \<lparr>DeleteRes_AffectedCount = 1\<rparr>" and v' = "[]"
      and sdk_d = test_SdkClient and sdk_c = test_SdkClient
      and new_res = "0::int" and new_res' = "0::int" and name = "''dbtest1''"
      and u = "[(None, 1)]" and u' = "[(None, 1)]"]
  by (simp add: IsAIDatabase_def SetAlias_def DeleteAlias_def CreateDatabase_def Database_def
      test_SdkClient_def)

text \<open>
  On an AI handle the result of \<open>SetAlias\<close> is \<open>nil\<close>, and \<open>DropDatabase\<close> returns
  the same \<open>nil\<close> and nothing else whether the response reports one database dropped
  or none.
\<close>

theorem mutating_results_counterexample:
  "fst (SetAlias test_SdkClient \<lparr>entity_DatabaseName = ''ai_db'', kind = AI\<rparr> ''col1'' ''alias1''
          [(None, Some \<lparr>SetRes_AffectedCount = 1\<rparr>)])
     = Return (None, Some AIDbTypeError)
   \<and> DropDatabase test_SdkClient (0::int) ''dbtest2'' [(None, 1)] = (None, [])
   \<and> DropDatabase test_SdkClient (0::int) ''dbtest2'' [(None, 0)] = (None, [])"
  by (simp add: SetAlias_def IsAIDatabase_def DropDatabase_def test_SdkClient_def)

end
